theory Spec2Isabelle
  imports Complex_Main
begin

section \<open>MaskedView: a shallow embedding of \<^verbatim>\<open>src/js/MaskedView.js\<close>\<close>

subsection \<open>JavaScript values and JSX trees\<close>

text \<open>
  The components the file refers to: \<^verbatim>\<open>View\<close> of react-native, \<^verbatim>\<open>Svg\<close>, \<^verbatim>\<open>Mask\<close> and
  \<^verbatim>\<open>ForeignObject\<close> of react-native-svg, a host component obtained from
  \<^verbatim>\<open>requireNativeComponent(name)\<close>, and any component of the caller (the type of a
  mask element or of a child).
\<close>

datatype component = View | Svg | Mask | ForeignObject
  | HostComponent string | UserComponent string

text \<open>
  The values a prop can hold. An object is the list of its own enumerable properties in
  insertion order. \<open>JElem\<close> is a React element (an object tagged with React's element
  symbol in \<^verbatim>\<open>$$typeof\<close>), given by its type and props; \<open>JObj\<close> is every other object.
\<close>

datatype jsval = JUndefined | JNull | JBool bool | JNum real | JStr string
  | JFun string
  | JArr "jsval list"
  | JObj "(string \<times> jsval) list"
  | JElem component "(string \<times> jsval) list"

type_synonym object = "(string \<times> jsval) list"

text \<open>
  What \<^verbatim>\<open>render\<close> returns, as it is written: a JSX element with its attributes and its
  children in order, a child being a nested JSX element or an expression container
  \<^verbatim>\<open>{e}\<close> holding a value the component does not look into.
\<close>

datatype jsx = Jsx (tag: component) (attrs: object) (kids: "jsx list")
  | Expr (val: jsval)

subsection \<open>Object operations used by render\<close>

text \<open>Property read \<^verbatim>\<open>o.k\<close>: \<^verbatim>\<open>undefined\<close> when the object has no such property.\<close>

definition obj_get :: "object \<Rightarrow> string \<Rightarrow> jsval" where
  "obj_get ob k = (case map_of ob k of None \<Rightarrow> JUndefined | Some v \<Rightarrow> v)"

text \<open>
  The rest element of a destructuring pattern, \<^verbatim>\<open>const {k1, k2, ...rest} = o\<close>: the
  properties of \<^verbatim>\<open>o\<close> other than the named ones, in order.
\<close>

definition obj_rest :: "string list \<Rightarrow> object \<Rightarrow> object" where
  "obj_rest ks ob = filter (\<lambda>p. fst p \<notin> set ks) ob"

text \<open>
  A JSX attribute written after a spread, \<^verbatim>\<open><T {...o} k={v}>\<close>: the property is
  overwritten in place when the spread object has it, and appended otherwise.
\<close>

fun obj_set :: "object \<Rightarrow> string \<Rightarrow> jsval \<Rightarrow> object" where
  "obj_set [] k v = [(k, v)]"
| "obj_set (p # ps) k v = (if fst p = k then (k, v) # ps else p # obj_set ps k v)"

text \<open>
  \<^verbatim>\<open>React.isValidElement(x)\<close>: \<^verbatim>\<open>x\<close> is a non-null object whose \<^verbatim>\<open>$$typeof\<close> is React's
  element symbol.
\<close>

fun isValidElement :: "jsval \<Rightarrow> bool" where
  "isValidElement (JElem c ps) = True"
| "isValidElement v = False"

subsection \<open>The module and the component\<close>

text \<open>
  What the module takes from react-native: \<^verbatim>\<open>requireNativeComponent\<close>, which is a function
  or is missing, and the style \<^verbatim>\<open>StyleSheet.absoluteFill\<close>.
\<close>

record environment =
  requireNativeComponent :: "(string \<Rightarrow> component) option"
  StyleSheet_absoluteFill :: jsval

text \<open>
  \<^verbatim>\<open>const RNCMaskedView = requireNativeComponent
      ? requireNativeComponent('RNCMaskedView') : null;\<close>
\<close>

definition RNCMaskedView :: "environment \<Rightarrow> component option" where
  "RNCMaskedView env =
     (case requireNativeComponent env of
        Some f \<Rightarrow> Some (f ''RNCMaskedView'')
      | None \<Rightarrow> None)"

text \<open>
  An instance: the props React has set on it and the field
  \<^verbatim>\<open>_hasWarnedInvalidRenderMask\<close> (named here without its underscore). The class has no constructor of its own, so a new
  instance holds the props it was created with and the field's initialiser.
\<close>

record MaskedView =
  props :: object
  hasWarnedInvalidRenderMask :: bool

definition new_MaskedView :: "object \<Rightarrow> MaskedView" where
  "new_MaskedView p = \<lparr>props = p, hasWarnedInvalidRenderMask = False\<rparr>"

text \<open>The console is the list of the messages given to \<^verbatim>\<open>console.error\<close>, oldest first.\<close>

type_synonym console = "string list"

definition invalid_mask_message :: string where
  "invalid_mask_message =
     ''MaskedView: Invalid `maskElement` prop was passed to MaskedView. '' @
     ''Expected a React Element. No mask will render.''"

text \<open>
  \<^verbatim>\<open>render()\<close>, with the instance and the console passed in and returned. The three
  \<^verbatim>\<open>return\<close> statements are the three branches, in the order of the source.
\<close>

definition render :: "environment \<Rightarrow> MaskedView \<Rightarrow> console \<Rightarrow> jsx \<times> MaskedView \<times> console" where
  "render env this con =
     (let maskElement = obj_get (props this) ''maskElement'';
          children = obj_get (props this) ''children'';
          otherViewProps = obj_rest [''maskElement'', ''children''] (props this)
      in
      if \<not> isValidElement maskElement then
        (let (this', con') =
               (if \<not> hasWarnedInvalidRenderMask this
                then (this\<lparr>hasWarnedInvalidRenderMask := True\<rparr>, con @ [invalid_mask_message])
                else (this, con))
         in (Jsx View otherViewProps [Expr children], this', con'))
      else
        (case RNCMaskedView env of
           Some rnc \<Rightarrow>
             (Jsx rnc otherViewProps
                [Jsx View
                   [(''pointerEvents'', JStr ''none''),
                    (''style'', StyleSheet_absoluteFill env)]
                   [Expr maskElement],
                 Expr children],
              this, con)
         | None \<Rightarrow>
             (Jsx View
                (obj_set otherViewProps ''style''
                   (JArr [obj_get otherViewProps ''style'',
                          JObj [(''flex'', JNum 1), (''width'', JStr ''100%''),
                                (''backgroundColor'', JStr ''red'')]]))
                [Jsx Svg
                   [(''style'', JObj [(''flex'', JNum 1), (''width'', JStr ''100%''),
                                      (''backgroundColor'', JStr ''blue'')])]
                   [Jsx Mask
                      [(''id'', JStr ''mask''),
                       (''style'', JObj [(''flex'', JNum 1), (''width'', JStr ''100%''),
                                         (''height'', JStr ''100%'')])]
                      [Jsx ForeignObject
                         [(''style'', JObj [(''flex'', JNum 1), (''width'', JStr ''100%''),
                                            (''height'', JStr ''100%'')])]
                         [Expr maskElement]],
                    Jsx ForeignObject
                      [(''mask'', JStr ''url(#mask)''),
                       (''style'', JObj [(''flex'', JNum 1), (''width'', JStr ''100%''),
                                         (''height'', JStr ''100%''),
                                         (''backgroundColor'', JStr ''red''),
                                         (''overflowY'', JStr ''auto'')])]
                      [Expr children]]],
              this, con)))"

definition render_output :: "environment \<Rightarrow> MaskedView \<Rightarrow> console \<Rightarrow> jsx" where
  "render_output env this con = fst (render env this con)"

definition render_instance :: "environment \<Rightarrow> MaskedView \<Rightarrow> console \<Rightarrow> MaskedView" where
  "render_instance env this con = fst (snd (render env this con))"

definition render_console :: "environment \<Rightarrow> MaskedView \<Rightarrow> console \<Rightarrow> console" where
  "render_console env this con = snd (snd (render env this con))"

text \<open>
  The life of an instance: before each call of \<^verbatim>\<open>render\<close> React sets \<^verbatim>\<open>this.props\<close> to
  the props of that render. The outputs are returned in the order of the calls.
\<close>

fun renders :: "environment \<Rightarrow> MaskedView \<Rightarrow> console \<Rightarrow> object list
    \<Rightarrow> jsx list \<times> MaskedView \<times> console" where
  "renders env this con [] = ([], this, con)"
| "renders env this con (p # ps) =
     (case render env (this\<lparr>props := p\<rparr>) con of
        (out, this', con') \<Rightarrow>
          (case renders env this' con' ps of
             (outs, this'', con'') \<Rightarrow> (out # outs, this'', con'')))"

definition renders_instance :: "environment \<Rightarrow> MaskedView \<Rightarrow> console \<Rightarrow> object list \<Rightarrow> MaskedView" where
  "renders_instance env this con ps = fst (snd (renders env this con ps))"

definition renders_console :: "environment \<Rightarrow> MaskedView \<Rightarrow> console \<Rightarrow> object list \<Rightarrow> console" where
  "renders_console env this con ps = snd (snd (renders env this con ps))"

text \<open>The props whose \<^verbatim>\<open>maskElement\<close> passes the check of \<^verbatim>\<open>render\<close>.\<close>

definition has_valid_mask :: "object \<Rightarrow> bool" where
  "has_valid_mask p = isValidElement (obj_get p ''maskElement'')"

subsection \<open>Reading an output tree\<close>

text \<open>
  The JSX elements of a tree, the root first, then those below each child in order. The
  values inside expression containers are not searched: they are the caller's.
\<close>

fun nodes :: "jsx \<Rightarrow> jsx list" where
  "nodes (Expr v) = []"
| "nodes (Jsx c ps ks) = Jsx c ps ks # concat (map nodes ks)"

definition is_element :: "component \<Rightarrow> jsx \<Rightarrow> bool" where
  "is_element c t = (case t of Jsx c' ps ks \<Rightarrow> c' = c | Expr v \<Rightarrow> False)"

text \<open>The components of react-native-svg: the elements a vector mask applies to.\<close>

definition is_svg_component :: "component \<Rightarrow> bool" where
  "is_svg_component c =
     (case c of Svg \<Rightarrow> True | Mask \<Rightarrow> True | ForeignObject \<Rightarrow> True | _ \<Rightarrow> False)"

text \<open>A mask definition is a \<^verbatim>\<open>Mask\<close> element; a mask consumer is an element of
  react-native-svg with a \<^verbatim>\<open>mask\<close> attribute.\<close>

definition is_mask_consumer :: "jsx \<Rightarrow> bool" where
  "is_mask_consumer t =
     (case t of
        Jsx c ps ks \<Rightarrow> is_svg_component c \<and> map_of ps ''mask'' \<noteq> None
      | Expr v \<Rightarrow> False)"

definition mask_definitions :: "jsx \<Rightarrow> jsx list" where
  "mask_definitions t = filter (is_element Mask) (nodes t)"

definition mask_consumers :: "jsx \<Rightarrow> jsx list" where
  "mask_consumers t = filter is_mask_consumer (nodes t)"

definition mask_ids :: "jsx \<Rightarrow> jsval list" where
  "mask_ids t = map (\<lambda>d. obj_get (attrs d) ''id'') (mask_definitions t)"

text \<open>The values held by the expression containers of a tree, in document order.\<close>

fun held_values :: "jsx \<Rightarrow> jsval list" where
  "held_values (Expr v) = [v]"
| "held_values (Jsx c ps ks) = concat (map held_values ks)"

text \<open>Property read on a value: \<^verbatim>\<open>undefined\<close> unless the value is an object with the
  property (no other read is made in what follows).\<close>

definition js_get :: "jsval \<Rightarrow> string \<Rightarrow> jsval" where
  "js_get v k = (case v of JObj ps \<Rightarrow> obj_get ps k | _ \<Rightarrow> JUndefined)"

text \<open>The reference to the element with id \<open>i\<close>, as a \<^verbatim>\<open>mask\<close> attribute writes it.\<close>

definition url_ref :: "jsval \<Rightarrow> jsval" where
  "url_ref i = (case i of JStr s \<Rightarrow> JStr (''url(#'' @ s @ '')'') | _ \<Rightarrow> JUndefined)"

subsection \<open>The three output shapes of the specification\<close>

datatype shape = Unmasked | NativeMasked | VectorMasked

text \<open>
  The decision of the specification, in its words: strict order, first match wins. An
  invalid mask element gives \<open>Unmasked\<close>; otherwise an available native primitive gives
  \<open>NativeMasked\<close>; otherwise \<open>VectorMasked\<close>.
\<close>

definition decide :: "bool \<Rightarrow> bool \<Rightarrow> shape" where
  "decide maskElementValid nativePrimitiveAvailable =
     (if \<not> maskElementValid then Unmasked
      else if nativePrimitiveAvailable then NativeMasked
      else VectorMasked)"

definition holds_value :: "jsx \<Rightarrow> bool" where
  "holds_value t = (case t of Expr v \<Rightarrow> True | Jsx c ps ks \<Rightarrow> False)"

text \<open>
  The shape of a tree, read from the tree alone, given the native masking primitive when
  there is one. \<open>Unmasked\<close>: a plain \<^verbatim>\<open>View\<close> whose only child is a value. \<open>NativeMasked\<close>:
  the native primitive with two children, a \<^verbatim>\<open>View\<close> holding a value, then a value.
  \<open>VectorMasked\<close>: a \<^verbatim>\<open>View\<close> whose only child is an \<^verbatim>\<open>Svg\<close> with two children, a
  \<^verbatim>\<open>Mask\<close> around a \<^verbatim>\<open>ForeignObject\<close> holding a value, then a \<^verbatim>\<open>ForeignObject\<close> holding
  a value. No tree has two shapes.
\<close>

definition holds_one_value :: "component \<Rightarrow> jsx \<Rightarrow> bool" where
  "holds_one_value c t =
     (is_element c t \<and> (case kids t of [k] \<Rightarrow> holds_value k | _ \<Rightarrow> False))"

definition is_vector_canvas :: "jsx \<Rightarrow> bool" where
  "is_vector_canvas t =
     (is_element Svg t \<and>
      (case kids t of
         [d, u] \<Rightarrow>
           is_element Mask d \<and>
           (case kids d of [f] \<Rightarrow> holds_one_value ForeignObject f | _ \<Rightarrow> False) \<and>
           holds_one_value ForeignObject u
       | _ \<Rightarrow> False))"

definition shape_of :: "component option \<Rightarrow> jsx \<Rightarrow> shape option" where
  "shape_of native t =
     (case t of
        Expr v \<Rightarrow> None
      | Jsx c ps ks \<Rightarrow>
          (case ks of
             [k] \<Rightarrow>
               if c = View \<and> holds_value k then Some Unmasked
               else if c = View \<and> is_vector_canvas k then Some VectorMasked
               else None
           | [k1, k2] \<Rightarrow>
               if native = Some c \<and> holds_one_value View k1 \<and> holds_value k2
               then Some NativeMasked
               else None
           | _ \<Rightarrow> None))"

subsection \<open>Example inputs\<close>

text \<open>
  Two environments: react-native on a device, where \<^verbatim>\<open>requireNativeComponent\<close> gives the
  host component of a name, and an environment without it. Both with react-native's
  absolute-fill style.
\<close>

definition absoluteFill_style :: jsval where
  "absoluteFill_style =
     JObj [(''position'', JStr ''absolute''), (''left'', JNum 0), (''right'', JNum 0),
           (''top'', JNum 0), (''bottom'', JNum 0)]"

definition env_native :: environment where
  "env_native =
     \<lparr>requireNativeComponent = Some HostComponent,
      StyleSheet_absoluteFill = absoluteFill_style\<rparr>"

definition env_no_native :: environment where
  "env_no_native =
     \<lparr>requireNativeComponent = None,
      StyleSheet_absoluteFill = absoluteFill_style\<rparr>"

text \<open>The mask and the child of the example in the file's documentation comment.\<close>

definition basic_mask :: jsval where
  "basic_mask =
     JElem View
       [(''style'', JStr ''maskContainerStyle''),
        (''children'',
         JElem (UserComponent ''Text'')
           [(''style'', JStr ''maskTextStyle''), (''children'', JStr ''Basic Mask'')])]"

definition blue_child :: jsval where
  "blue_child =
     JElem View [(''style'', JObj [(''flex'', JNum 1), (''backgroundColor'', JStr ''blue'')])]"

definition props_masked :: object where
  "props_masked =
     [(''style'', JObj [(''backgroundColor'', JStr ''green'')]),
      (''maskElement'', basic_mask),
      (''testID'', JStr ''masked''),
      (''children'', blue_child)]"

definition props_null_mask :: object where
  "props_null_mask =
     [(''style'', JObj [(''backgroundColor'', JStr ''green'')]),
      (''maskElement'', JNull),
      (''testID'', JStr ''masked''),
      (''children'', blue_child)]"

definition props_object_mask :: object where
  "props_object_mask =
     [(''maskElement'', JObj [(''type'', JStr ''View'')]), (''children'', blue_child)]"

definition props_no_mask :: object where
  "props_no_mask = [(''children'', blue_child)]"

definition props_only_mask :: object where
  "props_only_mask = [(''maskElement'', basic_mask)]"

definition props_other_mask :: object where
  "props_other_mask =
     [(''maskElement'', JElem (UserComponent ''Image'') [(''source'', JStr ''star.png'')]),
      (''children'', JStr ''second'')]"

section \<open>Lemmas\<close>

subsection \<open>Objects\<close>

lemma map_of_obj_rest: "map_of (obj_rest ks ob) k = (if k \<in> set ks then None else map_of ob k)"
  unfolding obj_rest_def by (induction ob) auto

lemma map_of_obj_set: "map_of (obj_set ob k v) = (map_of ob)(k \<mapsto> v)"
  by (induction ob) auto

lemma obj_get_obj_rest:
  "obj_get (obj_rest ks ob) k = (if k \<in> set ks then JUndefined else obj_get ob k)"
  by (simp add: obj_get_def map_of_obj_rest)

text \<open>The values that are not React elements: \<^verbatim>\<open>undefined\<close> (also what a missing prop
  reads as), \<^verbatim>\<open>null\<close>, the primitives, functions, arrays and plain objects.\<close>

lemma invalid_mask_values:
  "map_of p ''maskElement'' = None \<Longrightarrow> \<not> has_valid_mask p"
  "\<not> isValidElement JUndefined" "\<not> isValidElement JNull" "\<not> isValidElement (JBool b)"
  "\<not> isValidElement (JNum n)" "\<not> isValidElement (JStr s)" "\<not> isValidElement (JFun f)"
  "\<not> isValidElement (JArr vs)" "\<not> isValidElement (JObj ob)"
  by (simp_all add: has_valid_mask_def obj_get_def)

lemma isValidElement_iff: "isValidElement v \<longleftrightarrow> (\<exists>c ps. v = JElem c ps)"
  by (cases v) simp_all

subsection \<open>The three branches of render\<close>

lemma render_invalid:
  "\<not> isValidElement (obj_get (props this) ''maskElement'') \<Longrightarrow>
   render env this con =
     (Jsx View (obj_rest [''maskElement'', ''children''] (props this))
        [Expr (obj_get (props this) ''children'')],
      this\<lparr>hasWarnedInvalidRenderMask := True\<rparr>,
      if hasWarnedInvalidRenderMask this then con else con @ [invalid_mask_message])"
  by (simp add: render_def Let_def)

lemma render_output_invalid:
  "\<not> isValidElement (obj_get (props this) ''maskElement'') \<Longrightarrow>
   render_output env this con =
     Jsx View (obj_rest [''maskElement'', ''children''] (props this))
        [Expr (obj_get (props this) ''children'')]"
  by (simp add: render_output_def render_invalid)

lemma render_output_native:
  "isValidElement (obj_get (props this) ''maskElement'') \<Longrightarrow> RNCMaskedView env = Some rnc \<Longrightarrow>
   render_output env this con =
     Jsx rnc (obj_rest [''maskElement'', ''children''] (props this))
       [Jsx View [(''pointerEvents'', JStr ''none''), (''style'', StyleSheet_absoluteFill env)]
          [Expr (obj_get (props this) ''maskElement'')],
        Expr (obj_get (props this) ''children'')]"
  by (simp add: render_output_def render_def Let_def)

lemma render_output_vector:
  "isValidElement (obj_get (props this) ''maskElement'') \<Longrightarrow> RNCMaskedView env = None \<Longrightarrow>
   render_output env this con =
     Jsx View
       (obj_set (obj_rest [''maskElement'', ''children''] (props this)) ''style''
          (JArr [obj_get (obj_rest [''maskElement'', ''children''] (props this)) ''style'',
                 JObj [(''flex'', JNum 1), (''width'', JStr ''100%''),
                       (''backgroundColor'', JStr ''red'')]]))
       [Jsx Svg
          [(''style'', JObj [(''flex'', JNum 1), (''width'', JStr ''100%''),
                             (''backgroundColor'', JStr ''blue'')])]
          [Jsx Mask
             [(''id'', JStr ''mask''),
              (''style'', JObj [(''flex'', JNum 1), (''width'', JStr ''100%''),
                                (''height'', JStr ''100%'')])]
             [Jsx ForeignObject
                [(''style'', JObj [(''flex'', JNum 1), (''width'', JStr ''100%''),
                                   (''height'', JStr ''100%'')])]
                [Expr (obj_get (props this) ''maskElement'')]],
           Jsx ForeignObject
             [(''mask'', JStr ''url(#mask)''),
              (''style'', JObj [(''flex'', JNum 1), (''width'', JStr ''100%''),
                                (''height'', JStr ''100%''),
                                (''backgroundColor'', JStr ''red''),
                                (''overflowY'', JStr ''auto'')])]
             [Expr (obj_get (props this) ''children'')]]]"
  by (simp add: render_output_def render_def Let_def)

subsection \<open>The instance and the console across renders\<close>

lemma render_valid_state:
  "isValidElement (obj_get (props this) ''maskElement'') \<Longrightarrow>
   render_instance env this con = this \<and> render_console env this con = con"
  by (simp add: render_instance_def render_console_def render_def Let_def split: option.splits)

lemma render_invalid_state:
  "\<not> isValidElement (obj_get (props this) ''maskElement'') \<Longrightarrow>
   render_instance env this con = this\<lparr>hasWarnedInvalidRenderMask := True\<rparr> \<and>
   render_console env this con =
     (if hasWarnedInvalidRenderMask this then con else con @ [invalid_mask_message])"
  by (simp add: render_instance_def render_console_def render_invalid)

lemma renders_instance_Nil: "renders_instance env this con [] = this"
  by (simp add: renders_instance_def)

lemma renders_console_Nil: "renders_console env this con [] = con"
  by (simp add: renders_console_def)

lemma renders_instance_Cons:
  "renders_instance env this con (p # ps) =
     renders_instance env (render_instance env (this\<lparr>props := p\<rparr>) con)
       (render_console env (this\<lparr>props := p\<rparr>) con) ps"
  by (simp add: renders_instance_def render_instance_def render_console_def split: prod.splits)

lemma renders_console_Cons:
  "renders_console env this con (p # ps) =
     renders_console env (render_instance env (this\<lparr>props := p\<rparr>) con)
       (render_console env (this\<lparr>props := p\<rparr>) con) ps"
  by (simp add: renders_console_def render_instance_def render_console_def split: prod.splits)

lemma renders_instance_append:
  "renders_instance env this con (xs @ ys) =
     renders_instance env (renders_instance env this con xs) (renders_console env this con xs) ys"
  by (induction xs arbitrary: this con)
     (simp_all add: renders_instance_Nil renders_console_Nil renders_instance_Cons renders_console_Cons)

lemma renders_console_append:
  "renders_console env this con (xs @ ys) =
     renders_console env (renders_instance env this con xs) (renders_console env this con xs) ys"
  by (induction xs arbitrary: this con)
     (simp_all add: renders_instance_Nil renders_console_Nil renders_instance_Cons renders_console_Cons)

lemma renders_all_valid:
  "list_all has_valid_mask ps \<Longrightarrow>
   hasWarnedInvalidRenderMask (renders_instance env this con ps) = hasWarnedInvalidRenderMask this
   \<and> renders_console env this con ps = con"
proof (induction ps arbitrary: this)
  case Nil
  show ?case by (simp add: renders_instance_Nil renders_console_Nil)
next
  case (Cons p ps)
  have v: "isValidElement (obj_get (props (this\<lparr>props := p\<rparr>)) ''maskElement'')"
    using Cons.prems by (simp add: has_valid_mask_def)
  have rest: "list_all has_valid_mask ps" using Cons.prems by simp
  from Cons.IH [OF rest, of "this\<lparr>props := p\<rparr>"] show ?case
    by (simp add: renders_instance_Cons renders_console_Cons render_valid_state [OF v])
qed

lemma render_warned:
  "hasWarnedInvalidRenderMask this \<Longrightarrow>
   hasWarnedInvalidRenderMask (render_instance env this con) \<and> render_console env this con = con"
  by (cases "isValidElement (obj_get (props this) ''maskElement'')")
     (simp_all add: render_valid_state render_invalid_state)

lemma renders_warned:
  "hasWarnedInvalidRenderMask this \<Longrightarrow>
   hasWarnedInvalidRenderMask (renders_instance env this con ps) \<and> renders_console env this con ps = con"
proof (induction ps arbitrary: this)
  case Nil
  then show ?case by (simp add: renders_instance_Nil renders_console_Nil)
next
  case (Cons p ps)
  have "hasWarnedInvalidRenderMask (this\<lparr>props := p\<rparr>)" using Cons.prems by simp
  from render_warned [OF this, of env con]
  have t: "hasWarnedInvalidRenderMask (render_instance env (this\<lparr>props := p\<rparr>) con)"
    and c: "render_console env (this\<lparr>props := p\<rparr>) con = con" by simp_all
  from Cons.IH [OF t] show ?case
    by (simp add: renders_instance_Cons renders_console_Cons c)
qed

lemma renders_console_le:
  "length (renders_console env this con ps) \<le> length con + 1"
proof (induction ps arbitrary: this)
  case Nil
  show ?case by (simp add: renders_console_Nil)
next
  case (Cons p ps)
  let ?t = "this\<lparr>props := p\<rparr>"
  show ?case
  proof (cases "isValidElement (obj_get (props ?t) ''maskElement'')")
    case True
    from Cons.IH [of ?t] show ?thesis
      by (simp add: renders_console_Cons render_valid_state [OF True])
  next
    case False
    show ?thesis
    proof (cases "hasWarnedInvalidRenderMask this")
      case True
      then show ?thesis using renders_warned [OF True, of env con "p # ps"] by simp
    next
      case nw: False
      have w: "hasWarnedInvalidRenderMask (?t\<lparr>hasWarnedInvalidRenderMask := True\<rparr>)" by simp
      from renders_warned [OF w, of env "con @ [invalid_mask_message]" ps] nw show ?thesis
        by (simp add: renders_console_Cons render_invalid_state [OF False])
    qed
  qed
qed

lemma shape_of_native:
  "shape_of (Some rnc) (Jsx rnc ps [Jsx View qs [Expr m], Expr c]) = Some NativeMasked"
  by (simp add: shape_of_def holds_value_def holds_one_value_def is_element_def)

lemma shape_of_vector:
  "shape_of native
     (Jsx View ps
        [Jsx Svg qs [Jsx Mask rs [Jsx ForeignObject ss [Expr m]],
                     Jsx ForeignObject ts [Expr c]]]) = Some VectorMasked"
  by (simp add: shape_of_def holds_value_def holds_one_value_def is_vector_canvas_def
      is_element_def)

lemma shape_of_unmasked: "shape_of native (Jsx View ps [Expr c]) = Some Unmasked"
  by (simp add: shape_of_def holds_value_def)

lemma render_valid_shape:
  assumes "isValidElement (obj_get (props this) ''maskElement'')"
  shows "shape_of (RNCMaskedView env) (render_output env this con) =
           Some (if RNCMaskedView env \<noteq> None then NativeMasked else VectorMasked)"
proof (cases "RNCMaskedView env")
  case None
  then show ?thesis
    by (simp add: render_output_vector [OF assms None] shape_of_vector)
next
  case (Some rnc)
  then show ?thesis
    by (simp add: render_output_native [OF assms Some] shape_of_native)
qed

section \<open>The properties of the specification\<close>

subsection \<open>The choice of the output shape\<close>

text \<open>
  C1. For every props, environment, instance state and console, the output of \<^verbatim>\<open>render\<close>
  has exactly one of the three shapes, and which one is the decision function of the
  specification applied to two facts only: whether \<^verbatim>\<open>maskElement\<close> is a valid element and
  whether the native masking primitive is available. An invalid mask element gives
  \<open>Unmasked\<close> whatever the environment; otherwise the native primitive gives
  \<open>NativeMasked\<close>; otherwise \<open>VectorMasked\<close>.
\<close>

theorem render_shape_is_decided:
  "shape_of (RNCMaskedView env) (render_output env this con) =
     Some (decide (isValidElement (obj_get (props this) ''maskElement''))
                  (RNCMaskedView env \<noteq> None))"
proof (cases "isValidElement (obj_get (props this) ''maskElement'')")
  case False
  then show ?thesis
    by (simp add: render_output_invalid decide_def shape_of_unmasked)
next
  case True
  then show ?thesis
    by (simp add: render_valid_shape decide_def)
qed

theorem render_shape_is_decided_witness:
  "shape_of (RNCMaskedView env_native)
     (render_output env_native (new_MaskedView props_null_mask) []) = Some Unmasked
   \<and> shape_of (RNCMaskedView env_native)
     (render_output env_native (new_MaskedView props_masked) []) = Some NativeMasked
   \<and> shape_of (RNCMaskedView env_no_native)
     (render_output env_no_native (new_MaskedView props_masked) []) = Some VectorMasked"
  using render_shape_is_decided [of env_native "new_MaskedView props_null_mask" "[]"]
    render_shape_is_decided [of env_native "new_MaskedView props_masked" "[]"]
    render_shape_is_decided [of env_no_native "new_MaskedView props_masked" "[]"]
  by (simp add: decide_def env_native_def env_no_native_def RNCMaskedView_def
      new_MaskedView_def props_null_mask_def props_masked_def basic_mask_def obj_get_def)

subsection \<open>An invalid mask element\<close>

text \<open>
  C2. When \<^verbatim>\<open>maskElement\<close> is not a valid element (a missing prop, \<^verbatim>\<open>null\<close>, a primitive
  or a plain object: see \<open>invalid_mask_values\<close>), \<^verbatim>\<open>render\<close> returns a plain \<^verbatim>\<open>View\<close> whose
  attributes are the passthrough props and whose only child is \<^verbatim>\<open>children\<close>; the tree
  has no mask definition and no mask consumer. \<^verbatim>\<open>render\<close> has no statement that throws,
  so the model is a total function without an error value, and the result stated here
  is what every such call returns.
\<close>

theorem invalid_mask_renders_unmasked:
  assumes "\<not> isValidElement (obj_get (props this) ''maskElement'')"
  shows "tag (render_output env this con) = View
       \<and> attrs (render_output env this con) = obj_rest [''maskElement'', ''children''] (props this)
       \<and> kids (render_output env this con) = [Expr (obj_get (props this) ''children'')]
       \<and> mask_definitions (render_output env this con) = []
       \<and> mask_consumers (render_output env this con) = []"
  by (simp add: render_output_invalid [OF assms] mask_definitions_def mask_consumers_def
      is_element_def is_mask_consumer_def is_svg_component_def)

theorem invalid_mask_renders_unmasked_witness:
  "\<not> isValidElement (obj_get (props (new_MaskedView props_null_mask)) ''maskElement'')
   \<and> tag (render_output env_native (new_MaskedView props_null_mask) []) = View
   \<and> attrs (render_output env_native (new_MaskedView props_null_mask) []) =
       [(''style'', JObj [(''backgroundColor'', JStr ''green'')]), (''testID'', JStr ''masked'')]
   \<and> kids (render_output env_native (new_MaskedView props_null_mask) []) = [Expr blue_child]
   \<and> mask_definitions (render_output env_native (new_MaskedView props_null_mask) []) = []
   \<and> mask_consumers (render_output env_native (new_MaskedView props_null_mask) []) = []"
proof -
  have h: "\<not> isValidElement (obj_get (props (new_MaskedView props_null_mask)) ''maskElement'')"
    by (simp add: new_MaskedView_def props_null_mask_def obj_get_def)
  show ?thesis
    using h invalid_mask_renders_unmasked [OF h, of env_native "[]"]
    by (simp add: new_MaskedView_def props_null_mask_def obj_get_def obj_rest_def)
qed

text \<open>
  C3. On a new instance, as long as the renders have a valid mask element nothing is
  written to the console; the first render with an invalid one writes exactly one
  message and leaves the flag set; whatever renders follow, valid or not, the console
  still holds that one message only. Over any sequence of renders at all, the instance
  writes at most one message.
\<close>

theorem invalid_mask_warns_once:
  assumes "list_all has_valid_mask pre" and "\<not> has_valid_mask p"
  shows "renders_console env (new_MaskedView p0) con pre = con
       \<and> renders_console env (new_MaskedView p0) con (pre @ [p]) = con @ [invalid_mask_message]
       \<and> hasWarnedInvalidRenderMask (renders_instance env (new_MaskedView p0) con (pre @ [p]))
       \<and> renders_console env (new_MaskedView p0) con (pre @ p # post) = con @ [invalid_mask_message]
       \<and> length (renders_console env (new_MaskedView p0) con ps) \<le> length con + 1"
proof -
  let ?n = "new_MaskedView p0"
  let ?t1 = "renders_instance env ?n con pre"
  from renders_all_valid [OF assms(1), of env ?n con]
  have t1: "\<not> hasWarnedInvalidRenderMask ?t1" and c1: "renders_console env ?n con pre = con"
    by (simp_all add: new_MaskedView_def)
  have v: "\<not> isValidElement (obj_get (props (?t1\<lparr>props := p\<rparr>)) ''maskElement'')"
    using assms(2) by (simp add: has_valid_mask_def)
  have w: "hasWarnedInvalidRenderMask (?t1\<lparr>props := p, hasWarnedInvalidRenderMask := True\<rparr>)"
    by simp
  have a: "renders_console env ?n con (pre @ [p]) = con @ [invalid_mask_message]"
    using t1 by (simp add: renders_console_append renders_console_Cons renders_console_Nil c1
        render_invalid_state [OF v])
  have b: "hasWarnedInvalidRenderMask (renders_instance env ?n con (pre @ [p]))"
    by (simp add: renders_instance_append renders_instance_Cons renders_instance_Nil c1
        render_invalid_state [OF v])
  have c: "renders_console env ?n con (pre @ p # post) = con @ [invalid_mask_message]"
    using t1 renders_warned [OF w, of env "con @ [invalid_mask_message]" post]
    by (simp add: renders_console_append renders_console_Cons c1 render_invalid_state [OF v])
  have d: "length (renders_console env ?n con ps) \<le> length con + 1"
    by (rule renders_console_le)
  from c1 a b c d show ?thesis by blast
qed

theorem invalid_mask_warns_once_witness:
  "list_all has_valid_mask [props_masked] \<and> \<not> has_valid_mask props_null_mask
   \<and> renders_console env_native (new_MaskedView props_masked) [] [props_masked] = []
   \<and> renders_console env_native (new_MaskedView props_masked) []
       ([props_masked] @ [props_null_mask]) = [invalid_mask_message]
   \<and> hasWarnedInvalidRenderMask
       (renders_instance env_native (new_MaskedView props_masked) []
          ([props_masked] @ [props_null_mask]))
   \<and> renders_console env_native (new_MaskedView props_masked) []
       ([props_masked] @ props_null_mask # [props_object_mask, props_no_mask, props_masked])
       = [invalid_mask_message]
   \<and> length (renders_console env_native (new_MaskedView props_masked) []
       [props_null_mask, props_no_mask, props_object_mask]) \<le> 1"
proof -
  have h1: "list_all has_valid_mask [props_masked]"
    by (simp add: has_valid_mask_def props_masked_def basic_mask_def obj_get_def)
  have h2: "\<not> has_valid_mask props_null_mask"
    by (simp add: has_valid_mask_def props_null_mask_def obj_get_def)
  show ?thesis
    using h1 h2 invalid_mask_warns_once [OF h1 h2, of env_native props_masked "[]"
        "[props_object_mask, props_no_mask, props_masked]"
        "[props_null_mask, props_no_mask, props_object_mask]"]
    by simp
qed

subsection \<open>A valid mask element\<close>

text \<open>
  C4. When \<^verbatim>\<open>maskElement\<close> is a valid element and the native masking primitive is
  available, the root is the native primitive with the passthrough props as its
  attributes and exactly two children, in order: a \<^verbatim>\<open>View\<close> whose attributes are
  \<^verbatim>\<open>pointerEvents="none"\<close> (it takes no pointer events) and react-native's absolute-fill
  style (it covers its container), holding \<^verbatim>\<open>maskElement\<close>; then \<^verbatim>\<open>children\<close>.
\<close>

theorem native_masked_output:
  assumes "isValidElement (obj_get (props this) ''maskElement'')"
    and "RNCMaskedView env = Some rnc"
  shows "(let out = render_output env this con; overlay = kids out ! 0 in
           tag out = rnc
         \<and> attrs out = obj_rest [''maskElement'', ''children''] (props this)
         \<and> length (kids out) = 2
         \<and> tag overlay = View
         \<and> map fst (attrs overlay) = [''pointerEvents'', ''style'']
         \<and> obj_get (attrs overlay) ''pointerEvents'' = JStr ''none''
         \<and> obj_get (attrs overlay) ''style'' = StyleSheet_absoluteFill env
         \<and> kids overlay = [Expr (obj_get (props this) ''maskElement'')]
         \<and> kids out ! 1 = Expr (obj_get (props this) ''children''))"
  by (simp add: render_output_native [OF assms] obj_get_def)

theorem native_masked_output_witness:
  "isValidElement (obj_get (props (new_MaskedView props_masked)) ''maskElement'')
   \<and> RNCMaskedView env_native = Some (HostComponent ''RNCMaskedView'')
   \<and> (let out = render_output env_native (new_MaskedView props_masked) [];
          overlay = kids out ! 0 in
           tag out = HostComponent ''RNCMaskedView''
         \<and> attrs out = [(''style'', JObj [(''backgroundColor'', JStr ''green'')]),
                        (''testID'', JStr ''masked'')]
         \<and> length (kids out) = 2
         \<and> tag overlay = View
         \<and> map fst (attrs overlay) = [''pointerEvents'', ''style'']
         \<and> obj_get (attrs overlay) ''pointerEvents'' = JStr ''none''
         \<and> obj_get (attrs overlay) ''style'' = absoluteFill_style
         \<and> kids overlay = [Expr basic_mask]
         \<and> kids out ! 1 = Expr blue_child)"
proof -
  have h1: "isValidElement (obj_get (props (new_MaskedView props_masked)) ''maskElement'')"
    by (simp add: new_MaskedView_def props_masked_def basic_mask_def obj_get_def)
  have h2: "RNCMaskedView env_native = Some (HostComponent ''RNCMaskedView'')"
    by (simp add: RNCMaskedView_def env_native_def)
  show ?thesis
    using h1 h2 native_masked_output [OF h1 h2, of "[]"]
    by (simp add: Let_def new_MaskedView_def props_masked_def obj_get_def obj_rest_def
        env_native_def)
qed

text \<open>
  C5. When \<^verbatim>\<open>maskElement\<close> is a valid element and there is no native masking primitive,
  the output has exactly one mask definition and exactly one mask consumer. The
  definition is a \<^verbatim>\<open>Mask\<close> whose only child is a \<^verbatim>\<open>ForeignObject\<close> holding \<^verbatim>\<open>maskElement\<close>.
  The consumer is a \<^verbatim>\<open>ForeignObject\<close> whose \<^verbatim>\<open>mask\<close> attribute is the reference to the id of
  that definition, which holds \<^verbatim>\<open>children\<close>, and whose style has \<^verbatim>\<open>overflowY: 'auto'\<close>.
\<close>

theorem vector_masked_output:
  assumes "isValidElement (obj_get (props this) ''maskElement'')"
    and "RNCMaskedView env = None"
  shows "(let out = render_output env this con;
              d = mask_definitions out ! 0;
              u = mask_consumers out ! 0 in
           length (mask_definitions out) = 1
         \<and> length (mask_consumers out) = 1
         \<and> length (kids d) = 1
         \<and> is_element ForeignObject (kids d ! 0)
         \<and> kids (kids d ! 0) = [Expr (obj_get (props this) ''maskElement'')]
         \<and> is_element ForeignObject u
         \<and> obj_get (attrs d) ''id'' = JStr ''mask''
         \<and> obj_get (attrs u) ''mask'' = url_ref (obj_get (attrs d) ''id'')
         \<and> kids u = [Expr (obj_get (props this) ''children'')]
         \<and> js_get (obj_get (attrs u) ''style'') ''overflowY'' = JStr ''auto'')"
  by (simp add: render_output_vector [OF assms] mask_definitions_def mask_consumers_def
      is_element_def is_mask_consumer_def is_svg_component_def obj_get_def js_get_def url_ref_def)

theorem vector_masked_output_witness:
  "isValidElement (obj_get (props (new_MaskedView props_masked)) ''maskElement'')
   \<and> RNCMaskedView env_no_native = None
   \<and> (let out = render_output env_no_native (new_MaskedView props_masked) [];
          d = mask_definitions out ! 0;
          u = mask_consumers out ! 0 in
           length (mask_definitions out) = 1
         \<and> length (mask_consumers out) = 1
         \<and> length (kids d) = 1
         \<and> is_element ForeignObject (kids d ! 0)
         \<and> kids (kids d ! 0) = [Expr basic_mask]
         \<and> is_element ForeignObject u
         \<and> obj_get (attrs d) ''id'' = JStr ''mask''
         \<and> obj_get (attrs u) ''mask'' = JStr ''url(#mask)''
         \<and> kids u = [Expr blue_child]
         \<and> js_get (obj_get (attrs u) ''style'') ''overflowY'' = JStr ''auto'')"
proof -
  have h1: "isValidElement (obj_get (props (new_MaskedView props_masked)) ''maskElement'')"
    by (simp add: new_MaskedView_def props_masked_def basic_mask_def obj_get_def)
  have h2: "RNCMaskedView env_no_native = None"
    by (simp add: RNCMaskedView_def env_no_native_def)
  show ?thesis
    using h1 h2 vector_masked_output [OF h1 h2, of "[]"]
    by (simp add: Let_def new_MaskedView_def props_masked_def obj_get_def url_ref_def)
qed

subsection \<open>Passthrough props\<close>

text \<open>
  C6, as the code has it. In each of the three shapes the output is a single root
  element. Its attributes never include \<^verbatim>\<open>maskElement\<close> or \<^verbatim>\<open>children\<close>. Every other prop
  given to the component is an attribute of the root with the value it was given, with
  one exception: in the \<open>VectorMasked\<close> shape the \<^verbatim>\<open>style\<close> attribute of the root is the
  array of two elements, the style that was given (\<^verbatim>\<open>undefined\<close> when none was) and the
  component's own object \<^verbatim>\<open>{flex: 1, width: '100%', backgroundColor: 'red'}\<close>.
\<close>

theorem passthrough_props_on_root:
  "\<not> holds_value (render_output env this con) \<and>
   map_of (attrs (render_output env this con)) k =
     (if k = ''maskElement'' \<or> k = ''children'' then None
      else if k = ''style'' \<and> has_valid_mask (props this) \<and> RNCMaskedView env = None
      then Some (JArr [obj_get (props this) ''style'',
                       JObj [(''flex'', JNum 1), (''width'', JStr ''100%''),
                             (''backgroundColor'', JStr ''red'')]])
      else map_of (props this) k)"
proof (cases "isValidElement (obj_get (props this) ''maskElement'')")
  case False
  then show ?thesis
    by (simp add: render_output_invalid has_valid_mask_def map_of_obj_rest holds_value_def)
next
  case True
  show ?thesis
  proof (cases "RNCMaskedView env")
    case None
    with True show ?thesis
      by (simp add: render_output_vector has_valid_mask_def map_of_obj_rest map_of_obj_set
          obj_get_obj_rest holds_value_def)
  next
    case (Some rnc)
    with True show ?thesis
      by (simp add: render_output_native has_valid_mask_def map_of_obj_rest holds_value_def)
  qed
qed

theorem passthrough_props_on_root_witness:
  "map_of (attrs (render_output env_no_native (new_MaskedView props_masked) [])) ''testID''
     = Some (JStr ''masked'')
   \<and> map_of (attrs (render_output env_no_native (new_MaskedView props_masked) [])) ''style''
     = Some (JArr [JObj [(''backgroundColor'', JStr ''green'')],
                   JObj [(''flex'', JNum 1), (''width'', JStr ''100%''),
                         (''backgroundColor'', JStr ''red'')]])
   \<and> map_of (attrs (render_output env_native (new_MaskedView props_masked) [])) ''style''
     = Some (JObj [(''backgroundColor'', JStr ''green'')])"
  using passthrough_props_on_root [of env_no_native "new_MaskedView props_masked" "[]" "''testID''"]
    passthrough_props_on_root [of env_no_native "new_MaskedView props_masked" "[]" "''style''"]
    passthrough_props_on_root [of env_native "new_MaskedView props_masked" "[]" "''style''"]
  by (simp add: env_no_native_def env_native_def RNCMaskedView_def has_valid_mask_def
      new_MaskedView_def props_masked_def basic_mask_def obj_get_def)

text \<open>
  C6 as it was stated fails: with a valid mask element and no native primitive, the
  \<^verbatim>\<open>style\<close> on the root is not the \<^verbatim>\<open>style\<close> that was given.
\<close>

theorem passthrough_style_changed:
  "map_of (attrs (render_output env_no_native (new_MaskedView props_masked) [])) ''style''
     \<noteq> map_of props_masked ''style''"
  by (simp add: render_output_def render_def Let_def env_no_native_def RNCMaskedView_def
      new_MaskedView_def props_masked_def basic_mask_def obj_get_def obj_rest_def)

subsection \<open>From an invalid mask element to a valid one\<close>

text \<open>
  C7. Let an instance, in any state, render with an invalid mask element, then any
  number of times with any props, then with a valid mask element. That last render
  writes nothing to the console, its output has a masked shape (\<open>NativeMasked\<close> with the
  native primitive, \<open>VectorMasked\<close> without), and over the whole run the console has
  received nothing after the first of these renders.
\<close>

theorem valid_after_invalid_is_masked:
  assumes "\<not> has_valid_mask p" and "has_valid_mask q"
  shows "render_console env ((renders_instance env this con (p # mid))\<lparr>props := q\<rparr>)
           (renders_console env this con (p # mid))
         = renders_console env this con (p # mid)
       \<and> shape_of (RNCMaskedView env)
           (render_output env ((renders_instance env this con (p # mid))\<lparr>props := q\<rparr>)
              (renders_console env this con (p # mid)))
         = Some (if RNCMaskedView env \<noteq> None then NativeMasked else VectorMasked)
       \<and> renders_console env this con (p # mid @ [q]) = renders_console env this con [p]"
proof -
  let ?t = "(renders_instance env this con (p # mid))\<lparr>props := q\<rparr>"
  let ?c = "renders_console env this con (p # mid)"
  have v: "isValidElement (obj_get (props ?t) ''maskElement'')"
    using assms(2) by (simp add: has_valid_mask_def)
  have a: "render_console env ?t ?c = ?c"
    using render_valid_state [OF v] by simp
  have b: "shape_of (RNCMaskedView env) (render_output env ?t ?c)
         = Some (if RNCMaskedView env \<noteq> None then NativeMasked else VectorMasked)"
    by (rule render_valid_shape [OF v])
  have iv: "\<not> isValidElement (obj_get (props (this\<lparr>props := p\<rparr>)) ''maskElement'')"
    using assms(1) by (simp add: has_valid_mask_def)
  have w: "hasWarnedInvalidRenderMask (render_instance env (this\<lparr>props := p\<rparr>) con)"
    by (simp add: render_invalid_state [OF iv])
  have c: "renders_console env this con (p # mid @ [q]) = renders_console env this con [p]"
    using renders_warned [OF w, of env "render_console env (this\<lparr>props := p\<rparr>) con" "mid @ [q]"]
    by (simp add: renders_console_Cons renders_console_Nil)
  from a b c show ?thesis by blast
qed

theorem valid_after_invalid_is_masked_witness:
  "\<not> has_valid_mask props_no_mask \<and> has_valid_mask props_masked
   \<and> render_console env_native
       ((renders_instance env_native (new_MaskedView props_no_mask) []
           (props_no_mask # [props_null_mask]))\<lparr>props := props_masked\<rparr>)
       (renders_console env_native (new_MaskedView props_no_mask) []
           (props_no_mask # [props_null_mask]))
     = renders_console env_native (new_MaskedView props_no_mask) []
           (props_no_mask # [props_null_mask])
   \<and> shape_of (RNCMaskedView env_native)
       (render_output env_native
          ((renders_instance env_native (new_MaskedView props_no_mask) []
              (props_no_mask # [props_null_mask]))\<lparr>props := props_masked\<rparr>)
          (renders_console env_native (new_MaskedView props_no_mask) []
              (props_no_mask # [props_null_mask])))
     = Some NativeMasked
   \<and> renders_console env_native (new_MaskedView props_no_mask) []
       (props_no_mask # [props_null_mask] @ [props_masked])
     = renders_console env_native (new_MaskedView props_no_mask) [] [props_no_mask]"
proof -
  have h1: "\<not> has_valid_mask props_no_mask"
    by (simp add: has_valid_mask_def props_no_mask_def obj_get_def)
  have h2: "has_valid_mask props_masked"
    by (simp add: has_valid_mask_def props_masked_def basic_mask_def obj_get_def)
  have n: "RNCMaskedView env_native \<noteq> None"
    by (simp add: RNCMaskedView_def env_native_def)
  show ?thesis
    using h1 h2 n valid_after_invalid_is_masked [OF h1 h2, of env_native
        "new_MaskedView props_no_mask" "[]" "[props_null_mask]"]
    by simp
qed

subsection \<open>Sibling instances on the vector path\<close>

text \<open>
  C8, as the code has it. For any two instances that render with a valid mask element
  where there is no native primitive, each output has exactly one mask definition, with
  the fixed id \<^verbatim>\<open>mask\<close>, and exactly one mask consumer, which refers to the id \<^verbatim>\<open>mask\<close>.
  The ids of the two instances are the same.
\<close>

theorem vector_mask_id_is_fixed:
  assumes "has_valid_mask (props thisA)" and "has_valid_mask (props thisB)"
    and "RNCMaskedView env = None"
  shows "mask_ids (render_output env thisA conA) = [JStr ''mask'']
       \<and> mask_ids (render_output env thisB conB) = [JStr ''mask'']
       \<and> map (\<lambda>u. obj_get (attrs u) ''mask'') (mask_consumers (render_output env thisA conA))
           = [url_ref (JStr ''mask'')]
       \<and> map (\<lambda>u. obj_get (attrs u) ''mask'') (mask_consumers (render_output env thisB conB))
           = [url_ref (JStr ''mask'')]"
  using assms
  by (simp add: has_valid_mask_def render_output_vector mask_ids_def mask_definitions_def
      mask_consumers_def is_element_def is_mask_consumer_def is_svg_component_def obj_get_def
      url_ref_def)

theorem vector_mask_id_is_fixed_witness:
  "has_valid_mask (props (new_MaskedView props_masked))
   \<and> has_valid_mask (props (new_MaskedView props_other_mask))
   \<and> RNCMaskedView env_no_native = None
   \<and> mask_ids (render_output env_no_native (new_MaskedView props_masked) []) = [JStr ''mask'']
   \<and> mask_ids (render_output env_no_native (new_MaskedView props_other_mask) [])
       = [JStr ''mask'']
   \<and> map (\<lambda>u. obj_get (attrs u) ''mask'')
       (mask_consumers (render_output env_no_native (new_MaskedView props_masked) []))
       = [JStr ''url(#mask)'']
   \<and> map (\<lambda>u. obj_get (attrs u) ''mask'')
       (mask_consumers (render_output env_no_native (new_MaskedView props_other_mask) []))
       = [JStr ''url(#mask)'']"
proof -
  have h1: "has_valid_mask (props (new_MaskedView props_masked))"
    by (simp add: has_valid_mask_def new_MaskedView_def props_masked_def basic_mask_def
        obj_get_def)
  have h2: "has_valid_mask (props (new_MaskedView props_other_mask))"
    by (simp add: has_valid_mask_def new_MaskedView_def props_other_mask_def obj_get_def)
  have h3: "RNCMaskedView env_no_native = None"
    by (simp add: RNCMaskedView_def env_no_native_def)
  show ?thesis
    using h1 h2 h3 vector_mask_id_is_fixed [OF h1 h2 h3, of "[]" "[]"]
    by (simp add: url_ref_def)
qed

text \<open>
  C8 as it was stated fails: two instances with different mask elements, both on the
  vector path, have mask definitions with the same id.
\<close>

theorem sibling_mask_ids_collide:
  "\<not> distinct (mask_ids (render_output env_no_native (new_MaskedView props_masked) [])
               @ mask_ids (render_output env_no_native (new_MaskedView props_other_mask) []))"
  by (simp add: render_output_def render_def Let_def env_no_native_def RNCMaskedView_def
      new_MaskedView_def props_masked_def props_other_mask_def basic_mask_def obj_get_def
      mask_ids_def mask_definitions_def is_element_def)

subsection \<open>Absent children\<close>

text \<open>
  C9. When \<^verbatim>\<open>maskElement\<close> is a valid element and the props have no \<^verbatim>\<open>children\<close>, \<^verbatim>\<open>render\<close>
  returns the masked shape of the environment, and the only values the tree holds are
  the mask element and, where the children go, \<^verbatim>\<open>undefined\<close>: a masked container with no
  content. This covers props that hold nothing but the mask element.
\<close>

theorem absent_children_empty_masked:
  assumes "has_valid_mask (props this)" and "map_of (props this) ''children'' = None"
  shows "shape_of (RNCMaskedView env) (render_output env this con)
           = Some (if RNCMaskedView env \<noteq> None then NativeMasked else VectorMasked)
       \<and> held_values (render_output env this con)
           = [obj_get (props this) ''maskElement'', JUndefined]"
proof -
  have v: "isValidElement (obj_get (props this) ''maskElement'')"
    using assms(1) by (simp add: has_valid_mask_def)
  have c: "obj_get (props this) ''children'' = JUndefined"
    using assms(2) by (simp add: obj_get_def)
  have "held_values (render_output env this con)
           = [obj_get (props this) ''maskElement'', JUndefined]"
  proof (cases "RNCMaskedView env")
    case None
    show ?thesis by (simp add: render_output_vector [OF v None] c)
  next
    case (Some rnc)
    show ?thesis by (simp add: render_output_native [OF v Some] c)
  qed
  with render_valid_shape [OF v, of env con] show ?thesis by simp
qed

theorem absent_children_empty_masked_witness:
  "has_valid_mask (props (new_MaskedView props_only_mask))
   \<and> map_of (props (new_MaskedView props_only_mask)) ''children'' = None
   \<and> shape_of (RNCMaskedView env_native)
       (render_output env_native (new_MaskedView props_only_mask) []) = Some NativeMasked
   \<and> held_values (render_output env_native (new_MaskedView props_only_mask) [])
       = [basic_mask, JUndefined]
   \<and> shape_of (RNCMaskedView env_no_native)
       (render_output env_no_native (new_MaskedView props_only_mask) []) = Some VectorMasked
   \<and> held_values (render_output env_no_native (new_MaskedView props_only_mask) [])
       = [basic_mask, JUndefined]"
proof -
  have h1: "has_valid_mask (props (new_MaskedView props_only_mask))"
    by (simp add: has_valid_mask_def new_MaskedView_def props_only_mask_def basic_mask_def
        obj_get_def)
  have h2: "map_of (props (new_MaskedView props_only_mask)) ''children'' = None"
    by (simp add: new_MaskedView_def props_only_mask_def)
  have n: "RNCMaskedView env_native \<noteq> None" "RNCMaskedView env_no_native = None"
    by (simp_all add: RNCMaskedView_def env_native_def env_no_native_def)
  have m: "obj_get (props (new_MaskedView props_only_mask)) ''maskElement'' = basic_mask"
    by (simp add: new_MaskedView_def props_only_mask_def obj_get_def)
  show ?thesis
    using h1 h2 n m absent_children_empty_masked [OF h1 h2, of env_native "[]"]
      absent_children_empty_masked [OF h1 h2, of env_no_native "[]"]
    by simp
qed

subsection \<open>The flag\<close>

text \<open>
  C10. The flag of a new instance is false. A render with a valid mask element returns
  the instance as it was. Any render changes nothing of the instance but the flag. Once
  the flag is true it is true after every render, and after every sequence of renders.
\<close>

theorem warned_flag_is_monotone:
  "\<not> hasWarnedInvalidRenderMask (new_MaskedView p)
   \<and> (has_valid_mask (props this) \<longrightarrow> render_instance env this con = this)
   \<and> render_instance env this con =
       this\<lparr>hasWarnedInvalidRenderMask :=
              hasWarnedInvalidRenderMask (render_instance env this con)\<rparr>
   \<and> (hasWarnedInvalidRenderMask this \<longrightarrow>
        hasWarnedInvalidRenderMask (render_instance env this con))
   \<and> (hasWarnedInvalidRenderMask this \<longrightarrow>
        hasWarnedInvalidRenderMask (renders_instance env this con ps))"
proof -
  have a: "\<not> hasWarnedInvalidRenderMask (new_MaskedView p)"
    by (simp add: new_MaskedView_def)
  have b: "has_valid_mask (props this) \<longrightarrow> render_instance env this con = this"
    by (simp add: has_valid_mask_def render_valid_state)
  have c: "render_instance env this con =
       this\<lparr>hasWarnedInvalidRenderMask :=
              hasWarnedInvalidRenderMask (render_instance env this con)\<rparr>"
    by (cases "isValidElement (obj_get (props this) ''maskElement'')")
       (simp_all add: render_valid_state render_invalid_state)
  have d: "hasWarnedInvalidRenderMask this \<longrightarrow>
        hasWarnedInvalidRenderMask (render_instance env this con)"
    by (simp add: render_warned)
  have e: "hasWarnedInvalidRenderMask this \<longrightarrow>
        hasWarnedInvalidRenderMask (renders_instance env this con ps)"
    by (simp add: renders_warned)
  from a b c d e show ?thesis by blast
qed

theorem warned_flag_is_monotone_witness:
  "has_valid_mask (props \<lparr>props = props_masked, hasWarnedInvalidRenderMask = True\<rparr>)
   \<and> hasWarnedInvalidRenderMask \<lparr>props = props_masked, hasWarnedInvalidRenderMask = True\<rparr>
   \<and> render_instance env_native \<lparr>props = props_masked, hasWarnedInvalidRenderMask = True\<rparr> []
       = \<lparr>props = props_masked, hasWarnedInvalidRenderMask = True\<rparr>
   \<and> hasWarnedInvalidRenderMask
       (render_instance env_native
          \<lparr>props = props_masked, hasWarnedInvalidRenderMask = True\<rparr> [])
   \<and> hasWarnedInvalidRenderMask
       (renders_instance env_native
          \<lparr>props = props_masked, hasWarnedInvalidRenderMask = True\<rparr> []
          [props_null_mask, props_masked, props_no_mask])"
proof -
  have h1: "has_valid_mask (props \<lparr>props = props_masked, hasWarnedInvalidRenderMask = True\<rparr>)"
    by (simp add: has_valid_mask_def props_masked_def basic_mask_def obj_get_def)
  have h2: "hasWarnedInvalidRenderMask \<lparr>props = props_masked, hasWarnedInvalidRenderMask = True\<rparr>"
    by simp
  show ?thesis
    using h1 h2 warned_flag_is_monotone [of props_masked
        "\<lparr>props = props_masked, hasWarnedInvalidRenderMask = True\<rparr>" env_native "[]"
        "[props_null_mask, props_masked, props_no_mask]"]
    by simp
qed

end
